theory Spec2Isabelle
  imports Main "HOL-Library.Sublist"
begin

section \<open>The standalone entry point of GeminiAutoPM (src/index.ts)\<close>

text \<open>
  The file embeds \<^verbatim>\<open>src/index.ts\<close>: the function \<^verbatim>\<open>parseLogLevel\<close>, the option and
  command declarations of the commander program, the three command actions and the four
  process-level handlers. JavaScript strings are modelled as \<^typ>\<open>string\<close>; effects
  (console output, logger calls, server construction and start, process exit) are
  recorded in an explicit process state.
\<close>

subsection \<open>Log levels (lines 18-26)\<close>

text \<open>
  Modelled from the spec: the enum \<^verbatim>\<open>LogLevel\<close> is imported from \<^verbatim>\<open>./utils/logger.js\<close>, which
  is not among the sources. The spec names its four members and their order
  \<^verbatim>\<open>ERROR < WARN < INFO < DEBUG\<close>.
\<close>

datatype LogLevel = ERROR | WARN | INFO | DEBUG

text \<open>
  \<^verbatim>\<open>String.prototype.toLowerCase\<close> on the ASCII range: the letters \<^verbatim>\<open>A\<close>..\<^verbatim>\<open>Z\<close> (codes 65..90)
  move to \<^verbatim>\<open>a\<close>..\<^verbatim>\<open>z\<close>, every other character is kept. A \<^typ>\<open>string\<close> is a list of
  bytes, so a character beyond ASCII is a sequence of bytes from 128 on, and it is kept as
  it is. In JavaScript the only characters beyond ASCII whose lower-case form holds an
  ASCII letter are U+0130 (it becomes \<^verbatim>\<open>i\<close> followed by U+0307) and U+212A (it becomes
  \<^verbatim>\<open>k\<close>); no string that holds one of them is lowered to \<^verbatim>\<open>error\<close>, \<^verbatim>\<open>warn\<close>, \<^verbatim>\<open>info\<close>
  or \<^verbatim>\<open>debug\<close>, so the result of \<^verbatim>\<open>parseLogLevel\<close> on such a string is the same in both.
\<close>

definition lower_char :: "char \<Rightarrow> char" where
  "lower_char c =
     (let n = (of_char c :: nat) in if 65 \<le> n \<and> n \<le> 90 then char_of (n + 32) else c)"

definition toLowerCase :: "string \<Rightarrow> string" where
  "toLowerCase s = map lower_char s"

definition parseLogLevel :: "string \<Rightarrow> LogLevel" where
  "parseLogLevel level =
     (let l = toLowerCase level in
      if l = ''error'' then ERROR
      else if l = ''warn'' then WARN
      else if l = ''info'' then INFO
      else if l = ''debug'' then DEBUG
      else INFO)"

text \<open>
  Equality of strings up to letter case, written without \<^const>\<open>toLowerCase\<close>: two
  characters agree when they are equal, or when one is an upper-case ASCII letter and the
  other is the lower-case letter 32 codes above it.
\<close>

definition same_letter :: "char \<Rightarrow> char \<Rightarrow> bool" where
  "same_letter c d =
     (let m = (of_char c :: nat); n = (of_char d :: nat) in
      c = d \<or> (65 \<le> m \<and> m \<le> 90 \<and> n = m + 32) \<or> (65 \<le> n \<and> n \<le> 90 \<and> m = n + 32))"

definition equals_ignoring_case :: "string \<Rightarrow> string \<Rightarrow> bool" where
  "equals_ignoring_case s t = list_all2 same_letter s t"

definition is_lower_letter :: "char \<Rightarrow> bool" where
  "is_lower_letter c = (let n = (of_char c :: nat) in 97 \<le> n \<and> n \<le> 122)"

subsection \<open>Option and command declarations (lines 28-40, 71-74, 101-105)\<close>

text \<open>
  The program object is built with the commander library, a dependency that is not part of
  the repository. What follows is the part of its command-line scan that the declarations
  of \<^verbatim>\<open>index.ts\<close> exercise, written after commander's \<^verbatim>\<open>parseOptions\<close> and
  \<^verbatim>\<open>_parseCommand\<close>: an option declaration has an optional short flag, a long flag,
  a mark for a required option-argument (\<^verbatim>\<open><level>\<close>, \<^verbatim>\<open><port>\<close>) and the key under which
  its value is stored.
\<close>

datatype option_decl =
  OptionDecl (short_flag: "string option") (long_flag: string) (required: bool)
    (attributeName: string)

text \<open>Lines 33-35: \<^verbatim>\<open>.version('1.0.0')\<close> registers \<^verbatim>\<open>-V, --version\<close>; two global options.\<close>

definition program_options :: "option_decl list" where
  "program_options =
     [OptionDecl (Some ''-V'') ''--version'' False ''version'',
      OptionDecl None ''--log-level'' True ''logLevel'',
      OptionDecl None ''--enable-context7'' False ''enableContext7'']"

datatype subcommand = Pm | Agents | All

text \<open>Lines 40, 74, 104-105: the options of the three subcommands.\<close>

fun command_options :: "subcommand \<Rightarrow> option_decl list" where
  "command_options Pm = [OptionDecl None ''--port'' True ''port'']"
| "command_options Agents = [OptionDecl None ''--port'' True ''port'']"
| "command_options All =
     [OptionDecl None ''--pm-port'' True ''pmPort'',
      OptionDecl None ''--agents-port'' True ''agentsPort'']"

text \<open>Lines 38, 72, 102: the names of the subcommands.\<close>

definition findCommand :: "string \<Rightarrow> subcommand option" where
  "findCommand name =
     (if name = ''pm'' then Some Pm
      else if name = ''agents'' then Some Agents
      else if name = ''all'' then Some All
      else None)"

definition findOption :: "option_decl list \<Rightarrow> string \<Rightarrow> option_decl option" where
  "findOption opts arg = find (\<lambda>opt. short_flag opt = Some arg \<or> long_flag opt = arg) opts"

definition maybeOption :: "string \<Rightarrow> bool" where
  "maybeOption arg = (length arg > 1 \<and> hd arg = CHR ''-'')"

text \<open>
  A known long flag with its value in the same argument, \<^verbatim>\<open>--foo=bar\<close>: the argument starts
  with two dashes, its first \<^verbatim>\<open>=\<close> stands at index 3 or later, and the text before it is the
  flag of an option that takes an argument.
\<close>

definition longFlagWithValue :: "option_decl list \<Rightarrow> string \<Rightarrow> (option_decl \<times> string) option" where
  "longFlagWithValue opts arg =
     (let flag = takeWhile (\<lambda>c. c \<noteq> CHR ''='') arg;
          rest = dropWhile (\<lambda>c. c \<noteq> CHR ''='') arg
      in if take 2 arg = ''--'' \<and> 3 \<le> length flag \<and> rest \<noteq> [] then
           (case findOption opts flag of
              Some opt \<Rightarrow> if required opt then Some (opt, tl rest) else None
            | None \<Rightarrow> None)
         else None)"

text \<open>
  The scan emits one event per recognised option, in the order of the command line: the
  key of the option and its argument (\<open>None\<close> for a flag). It ends either with a required
  option-argument missing, or with the arguments it did not consume, split into the
  operands and, from the first unknown option on, the unknown arguments.
\<close>

type_synonym option_event = "string \<times> string option"

datatype scan_end = OptionMissingArgument string | Split "string list" "string list"

type_synonym scan = "option_event list \<times> scan_end"

definition emit :: "option_event \<Rightarrow> scan \<Rightarrow> scan" where
  "emit ev r = (ev # fst r, snd r)"

definition push :: "bool \<Rightarrow> string \<Rightarrow> scan \<Rightarrow> scan" where
  "push dest_unknown arg r =
     (case snd r of
        OptionMissingArgument n \<Rightarrow> r
      | Split operands unknown \<Rightarrow>
          if dest_unknown then (fst r, Split operands (arg # unknown))
          else (fst r, Split (arg # operands) unknown))"

text \<open>
  \<^verbatim>\<open>parseOptions\<close>: the flag \<open>dest_unknown\<close> is commander's \<^verbatim>\<open>dest === unknown\<close>. The cases
  follow the order of the library's loop: the literal \<^verbatim>\<open>--\<close>, a known option, a known
  short flag at the head of a combined argument (a flag puts the remainder back on the
  arguments), a known long flag with \<^verbatim>\<open>=\<close>, and everything else.
\<close>

function parseOptions :: "option_decl list \<Rightarrow> bool \<Rightarrow> string list \<Rightarrow> scan" where
  "parseOptions opts dest_unknown [] = ([], Split [] [])"
| "parseOptions opts dest_unknown (arg # args) =
     (if arg = ''--'' then
        ([], if dest_unknown then Split [] (arg # args) else Split args [])
      else
        case (if maybeOption arg then findOption opts arg else None) of
          Some opt \<Rightarrow>
            (if required opt then
               (case args of
                  [] \<Rightarrow> ([], OptionMissingArgument (attributeName opt))
                | v # args' \<Rightarrow>
                    emit (attributeName opt, Some v) (parseOptions opts dest_unknown args'))
             else emit (attributeName opt, None) (parseOptions opts dest_unknown args))
        | None \<Rightarrow>
            (case (if length arg > 2 \<and> arg ! 0 = CHR ''-'' \<and> arg ! 1 \<noteq> CHR ''-''
                   then findOption opts [CHR ''-'', arg ! 1] else None) of
               Some opt \<Rightarrow>
                 (if required opt then
                    emit (attributeName opt, Some (drop 2 arg)) (parseOptions opts dest_unknown args)
                  else
                    emit (attributeName opt, None)
                      (parseOptions opts dest_unknown ((CHR ''-'' # drop 2 arg) # args)))
             | None \<Rightarrow>
                 (case longFlagWithValue opts arg of
                    Some (opt, v) \<Rightarrow>
                      emit (attributeName opt, Some v) (parseOptions opts dest_unknown args)
                  | None \<Rightarrow>
                      push (dest_unknown \<or> maybeOption arg) arg
                        (parseOptions opts (dest_unknown \<or> maybeOption arg) args))))"
  by pat_completeness auto
termination
  by (relation "measure (\<lambda>(opts, d, args). sum_list (map length args) + length args)")
    (auto split: if_splits)

text \<open>
  The option values of the program (\<^verbatim>\<open>cmd.parent.opts()\<close>), with the defaults of lines 34-35.
\<close>

record global_options =
  opt_logLevel :: string
  opt_enableContext7 :: bool

definition default_global_options :: global_options where
  "default_global_options = \<lparr>opt_logLevel = ''info'', opt_enableContext7 = True\<rparr>"

datatype parse_exit =
    VersionDisplayed
  | HelpDisplayed
  | MissingArgumentError string
  | UnknownOptionError string
  | UnknownCommandError string
  | ExcessArgumentsError

text \<open>
  The listeners that commander attaches to the program's options, run over the emitted
  events in order. The version listener prints the version and ends the process. An option
  that takes an argument stores it; a flag whose stored value is a boolean stores
  \<^verbatim>\<open>defaultValue || true\<close>. A flag event that carried a value would store that value, which
  is not the boolean \<^verbatim>\<open>true\<close>: the typed record writes \<open>False\<close> there (lemma
  \<open>program_flag_events\<close> shows that the scan never emits such an event).
\<close>

fun program_option_events :: "option_event list \<Rightarrow> global_options \<Rightarrow> parse_exit + global_options" where
  "program_option_events [] g = Inr g"
| "program_option_events ((key, val) # evs) g =
     (if key = ''version'' then Inl VersionDisplayed
      else if key = ''logLevel'' then
        (case val of
           Some v \<Rightarrow> program_option_events evs (g\<lparr>opt_logLevel := v\<rparr>)
         | None \<Rightarrow> program_option_events evs g)
      else if key = ''enableContext7'' then
        (case val of
           None \<Rightarrow> program_option_events evs (g\<lparr>opt_enableContext7 := (opt_enableContext7 default_global_options \<or> True)\<rparr>)
         | Some v \<Rightarrow> program_option_events evs (g\<lparr>opt_enableContext7 := False\<rparr>))
      else program_option_events evs g)"

text \<open>
  The option values of a subcommand (the \<^verbatim>\<open>options\<close> argument of its action): an object
  from keys to strings, with the defaults of lines 40, 74, 104 and 105.
\<close>

type_synonym command_opts = "(string \<times> string) list"

fun default_command_opts :: "subcommand \<Rightarrow> command_opts" where
  "default_command_opts Pm = [(''port'', ''8080'')]"
| "default_command_opts Agents = [(''port'', ''8081'')]"
| "default_command_opts All = [(''pmPort'', ''8080''), (''agentsPort'', ''8081'')]"

fun setOptionValue :: "string \<Rightarrow> string \<Rightarrow> command_opts \<Rightarrow> command_opts" where
  "setOptionValue key v [] = [(key, v)]"
| "setOptionValue key v ((k, w) # kvs) =
     (if k = key then (key, v) # kvs else (k, w) # setOptionValue key v kvs)"

fun command_option_events :: "option_event list \<Rightarrow> command_opts \<Rightarrow> command_opts" where
  "command_option_events [] kvs = kvs"
| "command_option_events ((key, val) # evs) kvs =
     (case val of
        Some v \<Rightarrow> command_option_events evs (setOptionValue key v kvs)
      | None \<Rightarrow> command_option_events evs kvs)"

text \<open>What an action receives: its own options and, through \<^verbatim>\<open>cmd.parent\<close>, the program's.\<close>

record invocation =
  inv_command :: subcommand
  inv_options :: command_opts
  inv_globalOptions :: global_options

definition helpRequested :: "string list \<Rightarrow> bool" where
  "helpRequested args = (List.member args ''--help'' \<or> List.member args ''-h'')"

text \<open>
  \<^verbatim>\<open>_parseCommand\<close> of a subcommand: it scans the unknown arguments handed down by the
  program, shows the help when asked, rejects what is still unknown, and checks the
  number of command-arguments (none is declared). Whether excess arguments are an error is
  a setting of the library whose default differs between its versions, so it is a
  parameter here.
\<close>

definition parseSubcommand ::
    "bool \<Rightarrow> subcommand \<Rightarrow> string list \<Rightarrow> string list \<Rightarrow> global_options \<Rightarrow> parse_exit + invocation" where
  "parseSubcommand allowExcessArguments c operands unknown g =
     (case parseOptions (command_options c) False unknown of
        (evs, OptionMissingArgument n) \<Rightarrow> Inl (MissingArgumentError n)
      | (evs, Split operands' unknown') \<Rightarrow>
          if helpRequested unknown' then Inl HelpDisplayed
          else if unknown' \<noteq> [] then Inl (UnknownOptionError (hd unknown'))
          else if \<not> allowExcessArguments \<and> operands @ operands' \<noteq> [] then Inl ExcessArgumentsError
          else Inr \<lparr>inv_command = c,
                    inv_options = command_option_events evs (default_command_opts c),
                    inv_globalOptions = g\<rparr>)"

text \<open>
  \<^verbatim>\<open>program.parse()\<close> (line 155) on the user's arguments: the program scans the whole
  command line for its own options first, wherever they stand, and then dispatches on the
  first operand. The program has no action of its own, so every command line that names
  none of the three subcommands ends in the library (help, or an error).
\<close>

definition parse :: "bool \<Rightarrow> string list \<Rightarrow> parse_exit + invocation" where
  "parse allowExcessArguments argv =
     (case parseOptions program_options False argv of (evs, e) \<Rightarrow>
        (case program_option_events evs default_global_options of
           Inl x \<Rightarrow> Inl x
         | Inr g \<Rightarrow>
             (case e of
                OptionMissingArgument n \<Rightarrow> Inl (MissingArgumentError n)
              | Split operands unknown \<Rightarrow>
                  (case operands of
                     [] \<Rightarrow>
                       if unknown = [] \<or> helpRequested unknown then Inl HelpDisplayed
                       else Inl (UnknownOptionError (hd unknown))
                   | c # rest \<Rightarrow>
                       (case findCommand c of
                          Some sc \<Rightarrow> parseSubcommand allowExcessArguments sc rest unknown g
                        | None \<Rightarrow>
                            if c = ''help'' \<or> helpRequested unknown then Inl HelpDisplayed
                            else Inl (UnknownCommandError c))))))"

subsection \<open>The process: its output, its collaborators and its exit\<close>

text \<open>
  A thrown or rejected JavaScript value and a promise are opaque; each carries a label.
\<close>

datatype thrown = Thrown string

datatype promise = Promise nat

datatype console_arg = Str string | Err thrown | Prom promise | Undefined

datatype server_class = PMServer | AgentsServer

text \<open>The object literal handed to a server constructor (lines 55-60, 86-91, 119-124).\<close>

record ServerConfig =
  name :: string
  version :: string
  logLevel :: LogLevel
  enableContext7 :: bool

text \<open>
  Modelled from the spec: the class \<^verbatim>\<open>Logger\<close> is imported from \<^verbatim>\<open>./utils/logger.js\<close>, which
  is not among the sources. The spec gives it a constructor from a name and a level and leveled logging
  calls that take a message and an optional error. A logger is its two constructor
  arguments, and a call to \<^verbatim>\<open>info\<close> or \<^verbatim>\<open>error\<close> is recorded in the trace as one log entry
  of that level together with the logger it went through; the calls do not throw.
\<close>

datatype Logger = Logger (logger_name: string) (level: LogLevel)

datatype event =
    ConsoleError "console_arg list"
  | NewLogger Logger
  | LoggerInfo Logger string
  | LoggerError Logger string thrown
  | NewServer server_class ServerConfig
  | ServerStart server_class ServerConfig

datatype process_event =
    SIGINT
  | SIGTERM
  | UncaughtException thrown
  | UnhandledRejection thrown promise

text \<open>The four closures registered at lines 134-153, by what they are registered for.\<close>

datatype listener = OnSIGINT | OnSIGTERM | OnUncaughtException | OnUnhandledRejection

datatype status =
    Running
  | Exited nat
  | ExitedByCommander parse_exit
  | DefaultDisposition process_event

record process =
  trace :: "event list"
  status :: status
  listeners :: "(string \<times> listener) list"

definition initial_process :: process where
  "initial_process = \<lparr>trace = [], status = Running, listeners = []\<rparr>"

text \<open>
  The servers are collaborators whose code is not among the sources: a constructor
  returns or throws, and \<^verbatim>\<open>start()\<close> resolves, rejects (a synchronous throw inside an
  awaited call is a rejection too), or stays pending for ever. Their behaviour is a
  parameter of everything below.
\<close>

datatype start_outcome = Resolves | Rejects thrown | Pending

record environment =
  construct :: "server_class \<Rightarrow> ServerConfig \<Rightarrow> thrown option"
  start :: "server_class \<Rightarrow> ServerConfig \<Rightarrow> start_outcome"

definition record_event :: "event \<Rightarrow> process \<Rightarrow> process" where
  "record_event e p = p\<lparr>trace := trace p @ [e]\<rparr>"

definition console_error :: "console_arg list \<Rightarrow> process \<Rightarrow> process" where
  "console_error args p = record_event (ConsoleError args) p"

definition logger_info :: "Logger \<Rightarrow> string \<Rightarrow> process \<Rightarrow> process" where
  "logger_info logger msg p = record_event (LoggerInfo logger msg) p"

definition logger_error :: "Logger \<Rightarrow> string \<Rightarrow> thrown \<Rightarrow> process \<Rightarrow> process" where
  "logger_error logger msg error p = record_event (LoggerError logger msg error) p"

text \<open>\<^verbatim>\<open>process.exit(code)\<close> ends the process: nothing after it runs.\<close>

definition process_exit :: "nat \<Rightarrow> process \<Rightarrow> process" where
  "process_exit code p = p\<lparr>status := Exited code\<rparr>"

subsection \<open>The command actions (lines 41-69, 75-99, 106-131)\<close>

text \<open>
  Each action is the source's statement sequence. The \<^verbatim>\<open>try\<close> block has two points of
  failure, the constructor and the awaited \<^verbatim>\<open>start()\<close>; both lead to the \<^verbatim>\<open>catch\<close> block.
  When \<^verbatim>\<open>start()\<close> stays pending the action is suspended at the \<^verbatim>\<open>await\<close> and the process
  keeps running.
\<close>

definition pm_action :: "command_opts \<Rightarrow> global_options \<Rightarrow> environment \<Rightarrow> process \<Rightarrow> process" where
  "pm_action options globalOptions env p =
     (let p = console_error [Str ''CLI: Starting PM server command...''] p;
          logger = Logger ''AutoPM-PM'' (parseLogLevel (opt_logLevel globalOptions));
          p = record_event (NewLogger logger) p;
          p = console_error [Str ''CLI: Created logger''] p;
          p = logger_info logger ''Starting Project Management MCP Server...'' p;
          p = console_error [Str ''CLI: Creating PMServer...''] p;
          config = \<lparr>name = ''autopm-pm'', version = ''1.0.0'',
                    logLevel = parseLogLevel (opt_logLevel globalOptions),
                    enableContext7 = opt_enableContext7 globalOptions\<rparr>;
          p = record_event (NewServer PMServer config) p
      in case construct env PMServer config of
           Some error \<Rightarrow> process_exit 1 (logger_error logger ''Failed to start PM server:'' error p)
         | None \<Rightarrow>
             (let p = console_error [Str ''CLI: PMServer created successfully''] p;
                  p = record_event (ServerStart PMServer config) p
              in case start env PMServer config of
                   Rejects error \<Rightarrow>
                     process_exit 1 (logger_error logger ''Failed to start PM server:'' error p)
                 | Pending \<Rightarrow> p
                 | Resolves \<Rightarrow>
                     logger_info logger ''Project Management server started successfully'' p))"

definition agents_action :: "command_opts \<Rightarrow> global_options \<Rightarrow> environment \<Rightarrow> process \<Rightarrow> process" where
  "agents_action options globalOptions env p =
     (let logger = Logger ''AutoPM-Agents'' (parseLogLevel (opt_logLevel globalOptions));
          p = record_event (NewLogger logger) p;
          p = logger_info logger ''Starting Agents MCP Server...'' p;
          config = \<lparr>name = ''autopm-agents'', version = ''1.0.0'',
                    logLevel = parseLogLevel (opt_logLevel globalOptions),
                    enableContext7 = opt_enableContext7 globalOptions\<rparr>;
          p = record_event (NewServer AgentsServer config) p
      in case construct env AgentsServer config of
           Some error \<Rightarrow>
             process_exit 1 (logger_error logger ''Failed to start Agents server:'' error p)
         | None \<Rightarrow>
             (let p = record_event (ServerStart AgentsServer config) p
              in case start env AgentsServer config of
                   Rejects error \<Rightarrow>
                     process_exit 1 (logger_error logger ''Failed to start Agents server:'' error p)
                 | Pending \<Rightarrow> p
                 | Resolves \<Rightarrow> logger_info logger ''Agents server started successfully'' p))"

definition all_action :: "command_opts \<Rightarrow> global_options \<Rightarrow> environment \<Rightarrow> process \<Rightarrow> process" where
  "all_action options globalOptions env p =
     (let logger = Logger ''AutoPM-All'' (parseLogLevel (opt_logLevel globalOptions));
          p = record_event (NewLogger logger) p;
          p = logger_info logger ''Starting both PM and Agents MCP servers...'' p;
          config = \<lparr>name = ''autopm-pm'', version = ''1.0.0'',
                    logLevel = parseLogLevel (opt_logLevel globalOptions),
                    enableContext7 = opt_enableContext7 globalOptions\<rparr>;
          p = record_event (NewServer PMServer config) p
      in case construct env PMServer config of
           Some error \<Rightarrow> process_exit 1 (logger_error logger ''Failed to start servers:'' error p)
         | None \<Rightarrow>
             (let p = record_event (ServerStart PMServer config) p
              in case start env PMServer config of
                   Rejects error \<Rightarrow>
                     process_exit 1 (logger_error logger ''Failed to start servers:'' error p)
                 | Pending \<Rightarrow> p
                 | Resolves \<Rightarrow>
                     logger_info logger
                       ''PM server started successfully (Agents tools available within PM server)'' p))"

definition run_action :: "invocation \<Rightarrow> environment \<Rightarrow> process \<Rightarrow> process" where
  "run_action cmd env p =
     (case inv_command cmd of
        Pm \<Rightarrow> pm_action (inv_options cmd) (inv_globalOptions cmd) env p
      | Agents \<Rightarrow> agents_action (inv_options cmd) (inv_globalOptions cmd) env p
      | All \<Rightarrow> all_action (inv_options cmd) (inv_globalOptions cmd) env p)"

subsection \<open>Process-level handlers (lines 134-153) and the program (line 155)\<close>

definition process_on :: "string \<Rightarrow> listener \<Rightarrow> process \<Rightarrow> process" where
  "process_on event_name l p = p\<lparr>listeners := listeners p @ [(event_name, l)]\<rparr>"

definition register_handlers :: "process \<Rightarrow> process" where
  "register_handlers p =
     (let p = process_on ''SIGINT'' OnSIGINT p;
          p = process_on ''SIGTERM'' OnSIGTERM p;
          p = process_on ''uncaughtException'' OnUncaughtException p;
          p = process_on ''unhandledRejection'' OnUnhandledRejection p
      in p)"

text \<open>
  The name under which Node emits a process event and the arguments it passes to the
  listeners: a signal passes its name, an uncaught exception the error, an unhandled
  rejection the reason and the promise. A parameter that receives no argument is
  \<^verbatim>\<open>undefined\<close>.
\<close>

fun event_name_of :: "process_event \<Rightarrow> string" where
  "event_name_of SIGINT = ''SIGINT''"
| "event_name_of SIGTERM = ''SIGTERM''"
| "event_name_of (UncaughtException error) = ''uncaughtException''"
| "event_name_of (UnhandledRejection reason pr) = ''unhandledRejection''"

fun listener_args :: "process_event \<Rightarrow> console_arg list" where
  "listener_args SIGINT = [Str ''SIGINT'']"
| "listener_args SIGTERM = [Str ''SIGTERM'']"
| "listener_args (UncaughtException error) = [Err error]"
| "listener_args (UnhandledRejection reason pr) = [Err reason, Prom pr]"

fun parameter :: "console_arg list \<Rightarrow> nat \<Rightarrow> console_arg" where
  "parameter [] i = Undefined"
| "parameter (a # as) 0 = a"
| "parameter (a # as) (Suc i) = parameter as i"

fun call_listener :: "listener \<Rightarrow> console_arg list \<Rightarrow> process \<Rightarrow> process" where
  "call_listener OnSIGINT args p =
     process_exit 0
       (console_error [Str (CHR 0x0A # ''Received SIGINT, shutting down gracefully...'')] p)"
| "call_listener OnSIGTERM args p =
     process_exit 0
       (console_error [Str (CHR 0x0A # ''Received SIGTERM, shutting down gracefully...'')] p)"
| "call_listener OnUncaughtException args p =
     process_exit 1 (console_error [Str ''Uncaught Exception:'', parameter args 0] p)"
| "call_listener OnUnhandledRejection args p =
     process_exit 1
       (console_error
          [Str ''Unhandled Rejection at:'', parameter args 1, Str ''reason:'', parameter args 0] p)"

text \<open>
  Delivery of a process event: a process that has exited receives nothing; otherwise the
  listeners registered under the event's name run in the order of their registration,
  and one that exits the process ends the delivery. With no listener registered Node
  applies its own default, which is not modelled further.
\<close>

fun call_listeners :: "listener list \<Rightarrow> console_arg list \<Rightarrow> process \<Rightarrow> process" where
  "call_listeners [] args p = p"
| "call_listeners (l # ls) args p =
     (if status p = Running then call_listeners ls args (call_listener l args p) else p)"

definition deliver :: "process_event \<Rightarrow> process \<Rightarrow> process" where
  "deliver ev p =
     (if status p \<noteq> Running then p
      else case map snd (filter (\<lambda>(n, l). n = event_name_of ev) (listeners p)) of
             [] \<Rightarrow> p\<lparr>status := DefaultDisposition ev\<rparr>
           | ls \<Rightarrow> call_listeners ls (listener_args ev) p)"

text \<open>
  The module body: the handlers are registered first, then \<^verbatim>\<open>program.parse()\<close> either ends
  in the library or runs the action of the chosen subcommand.
\<close>

definition main :: "bool \<Rightarrow> string list \<Rightarrow> environment \<Rightarrow> process" where
  "main allowExcessArguments argv env =
     (let p = register_handlers initial_process in
      case parse allowExcessArguments argv of
        Inl x \<Rightarrow> p\<lparr>status := ExitedByCommander x\<rparr>
      | Inr cmd \<Rightarrow> run_action cmd env p)"

subsection \<open>Observations on a trace\<close>

fun is_NewServer :: "event \<Rightarrow> bool" where
  "is_NewServer (NewServer c cfg) = True"
| "is_NewServer e = False"

fun is_ServerStart :: "event \<Rightarrow> bool" where
  "is_ServerStart (ServerStart c cfg) = True"
| "is_ServerStart e = False"

fun is_LoggerInfo :: "event \<Rightarrow> bool" where
  "is_LoggerInfo (LoggerInfo lg msg) = True"
| "is_LoggerInfo e = False"

fun is_LoggerError :: "event \<Rightarrow> bool" where
  "is_LoggerError (LoggerError lg msg error) = True"
| "is_LoggerError e = False"

text \<open>The servers constructed, the starts requested and the entries logged, in order.\<close>

definition constructed :: "process \<Rightarrow> event list" where
  "constructed p = filter is_NewServer (trace p)"

definition started :: "process \<Rightarrow> event list" where
  "started p = filter is_ServerStart (trace p)"

definition info_entries :: "process \<Rightarrow> event list" where
  "info_entries p = filter is_LoggerInfo (trace p)"

definition error_entries :: "process \<Rightarrow> event list" where
  "error_entries p = filter is_LoggerError (trace p)"

text \<open>
  What is left of an event when the name of the logger and the text of a message are
  forgotten: the kind of the event, the level of a log entry and of its logger, the
  error attached to it, and the server class and configuration.
\<close>

datatype shape =
    ConsoleLine
  | LoggerCreated LogLevel
  | InfoEntry LogLevel
  | ErrorEntry LogLevel thrown
  | Construction server_class ServerConfig
  | Start server_class ServerConfig

fun shape_of :: "event \<Rightarrow> shape" where
  "shape_of (ConsoleError args) = ConsoleLine"
| "shape_of (NewLogger lg) = LoggerCreated (level lg)"
| "shape_of (LoggerInfo lg msg) = InfoEntry (level lg)"
| "shape_of (LoggerError lg msg error) = ErrorEntry (level lg) error"
| "shape_of (NewServer c cfg) = Construction c cfg"
| "shape_of (ServerStart c cfg) = Start c cfg"

fun is_ConsoleError :: "event \<Rightarrow> bool" where
  "is_ConsoleError (ConsoleError args) = True"
| "is_ConsoleError e = False"

subsection \<open>Well-formed option events\<close>

text \<open>
  An event is declared when its key is the key of one of the options and it carries an
  argument exactly when that option takes one.
\<close>

definition declared :: "option_decl list \<Rightarrow> option_event \<Rightarrow> bool" where
  "declared opts ev =
     (\<exists>opt \<in> set opts. attributeName opt = fst ev \<and> (snd ev = None \<longleftrightarrow> \<not> required opt))"

subsection \<open>Three environments and an invocation, for concrete runs\<close>

definition reliable_servers :: environment where
  "reliable_servers = \<lparr>construct = (\<lambda>c cfg. None), start = (\<lambda>c cfg. Resolves)\<rparr>"

definition failing_constructor :: environment where
  "failing_constructor =
     \<lparr>construct = (\<lambda>c cfg. Some (Thrown ''invalid configuration'')), start = (\<lambda>c cfg. Resolves)\<rparr>"

definition failing_start :: environment where
  "failing_start =
     \<lparr>construct = (\<lambda>c cfg. None), start = (\<lambda>c cfg. Rejects (Thrown ''port in use''))\<rparr>"

definition default_invocation :: "subcommand \<Rightarrow> invocation" where
  "default_invocation c =
     \<lparr>inv_command = c, inv_options = default_command_opts c,
      inv_globalOptions = default_global_options\<rparr>"

section \<open>Properties\<close>

declare parseOptions.simps(2) [simp del]

lemmas effect_defs =
  record_event_def console_error_def logger_info_def logger_error_def process_exit_def

lemmas action_defs = pm_action_def agents_action_def all_action_def Let_def

lemmas observation_defs = constructed_def started_def info_entries_def error_entries_def

lemmas scan_defs =
  parse_def parseSubcommand_def program_options_def findOption_def maybeOption_def
  longFlagWithValue_def push_def emit_def findCommand_def default_global_options_def
  helpRequested_def parseOptions.simps(2)

lemmas environment_defs =
  reliable_servers_def failing_constructor_def failing_start_def default_invocation_def
  default_global_options_def initial_process_def

subsection \<open>Log-level resolution\<close>

lemma lower_char_iff:
  assumes "is_lower_letter d"
  shows "lower_char c = d \<longleftrightarrow> same_letter c d"
proof -
  let ?m = "of_char c :: nat" and ?n = "of_char d :: nat"
  have m: "?m < 256" and n: "97 \<le> ?n" "?n \<le> 122"
    using assms by (simp_all add: is_lower_letter_def Let_def)
  show ?thesis
  proof (cases "65 \<le> ?m \<and> ?m \<le> 90")
    case True
    then have l: "lower_char c = char_of (?m + 32)"
      by (simp add: lower_char_def Let_def)
    have "(char_of (?m + 32) = d) = (?n = ?m + 32)"
    proof
      assume "char_of (?m + 32) = d"
      then have "?n = (of_char (char_of (?m + 32) :: char) :: nat)" by simp
      also have "\<dots> = (?m + 32) mod 256" by (simp add: of_char_of)
      also have "\<dots> = ?m + 32" using True by simp
      finally show "?n = ?m + 32" .
    next
      assume "?n = ?m + 32"
      then have "char_of (?m + 32) = (char_of ?n :: char)" by simp
      then show "char_of (?m + 32) = d" by simp
    qed
    moreover have "c \<noteq> d" using True n by auto
    ultimately show ?thesis using True n l by (auto simp: same_letter_def Let_def)
  next
    case False
    then have "lower_char c = c" by (auto simp: lower_char_def Let_def)
    then show ?thesis using False n by (auto simp: same_letter_def Let_def)
  qed
qed

lemma toLowerCase_iff:
  "list_all is_lower_letter w \<Longrightarrow> toLowerCase s = w \<longleftrightarrow> equals_ignoring_case s w"
proof (induction s arbitrary: w)
  case Nil
  then show ?case by (auto simp: toLowerCase_def equals_ignoring_case_def)
next
  case (Cons c s)
  show ?case
  proof (cases w)
    case Nil
    then show ?thesis by (simp add: toLowerCase_def equals_ignoring_case_def)
  next
    case (Cons d w')
    with Cons.prems have d: "is_lower_letter d" and w': "list_all is_lower_letter w'"
      by simp_all
    from Cons.IH [OF w'] lower_char_iff [OF d, of c] Cons show ?thesis
      by (simp add: toLowerCase_def equals_ignoring_case_def)
  qed
qed

lemma level_names_lower:
  "list_all is_lower_letter ''error''" "list_all is_lower_letter ''warn''"
  "list_all is_lower_letter ''info''" "list_all is_lower_letter ''debug''"
  by (simp_all add: is_lower_letter_def)

text \<open>
  C3. For every input string, \<^const>\<open>parseLogLevel\<close> returns \<open>ERROR\<close>, \<open>WARN\<close>, \<open>INFO\<close> or
  \<open>DEBUG\<close> when the string equals \<^verbatim>\<open>error\<close>, \<^verbatim>\<open>warn\<close>, \<^verbatim>\<open>info\<close> or \<^verbatim>\<open>debug\<close> up to letter
  case, and \<open>INFO\<close> for every other string; the function is total, so no input fails.
\<close>

theorem parseLogLevel_resolution:
  "parseLogLevel s =
     (if equals_ignoring_case s ''error'' then ERROR
      else if equals_ignoring_case s ''warn'' then WARN
      else if equals_ignoring_case s ''info'' then INFO
      else if equals_ignoring_case s ''debug'' then DEBUG
      else INFO)"
  unfolding parseLogLevel_def Let_def
  by (simp only: toLowerCase_iff [OF level_names_lower(1)] toLowerCase_iff [OF level_names_lower(2)]
      toLowerCase_iff [OF level_names_lower(3)] toLowerCase_iff [OF level_names_lower(4)])

theorem parseLogLevel_resolution_witness:
  "parseLogLevel ''ERROR'' = ERROR \<and> parseLogLevel ''Warn'' = WARN \<and>
   parseLogLevel ''info'' = INFO \<and> parseLogLevel ''DeBuG'' = DEBUG \<and>
   parseLogLevel ''verbose'' = INFO \<and> parseLogLevel [] = INFO"
  using parseLogLevel_resolution [of "''ERROR''"] parseLogLevel_resolution [of "''Warn''"]
    parseLogLevel_resolution [of "''info''"] parseLogLevel_resolution [of "''DeBuG''"]
    parseLogLevel_resolution [of "''verbose''"] parseLogLevel_resolution [of "[]"]
  by (simp add: equals_ignoring_case_def same_letter_def)

lemma parseLogLevel_info: "parseLogLevel ''info'' = INFO"
  by (simp add: parseLogLevel_def toLowerCase_def lower_char_def)

lemma parseLogLevel_debug: "parseLogLevel ''debug'' = DEBUG"
  by (simp add: parseLogLevel_def toLowerCase_def lower_char_def)

subsection \<open>What the command-line scan can emit\<close>

lemma findOption_Some: "findOption opts arg = Some opt \<Longrightarrow> opt \<in> set opts"
  by (auto simp: findOption_def find_Some_iff)

lemma longFlagWithValue_Some:
  "longFlagWithValue opts arg = Some (opt, v) \<Longrightarrow> opt \<in> set opts \<and> required opt"
  by (auto simp: longFlagWithValue_def Let_def dest: findOption_Some split: if_splits option.splits)

lemma fst_emit: "fst (emit ev r) = ev # fst r"
  by (simp add: emit_def)

lemma fst_push: "fst (push d arg r) = fst r"
  by (simp add: push_def split: scan_end.splits)

lemma parseOptions_events: "list_all (declared opts) (fst (parseOptions opts d args))"
proof (induction opts d args rule: parseOptions.induct)
  case (1 opts d)
  then show ?case by simp
next
  case (2 opts d arg args)
  note unfold = parseOptions.simps(2) [of opts d arg args]
  show ?case
  proof (cases "arg = ''--''")
    case True
    then show ?thesis unfolding unfold by simp
  next
    case False
    note dash = this
    show ?thesis
    proof (cases "if maybeOption arg then findOption opts arg else None")
      case (Some opt)
      then have decl: "opt \<in> set opts" by (auto dest: findOption_Some split: if_splits)
      show ?thesis
      proof (cases "required opt")
        case True
        show ?thesis
        proof (cases args)
          case Nil
          with dash Some True show ?thesis unfolding unfold by simp
        next
          case (Cons v args')
          from "2.IH"(5) [OF dash Some True Cons] decl dash Some True Cons show ?thesis
            unfolding unfold by (auto simp: fst_emit declared_def)
        qed
      next
        case False
        from "2.IH"(6) [OF dash Some False] decl dash Some False show ?thesis
          unfolding unfold by (auto simp: fst_emit declared_def)
      qed
    next
      case None
      note known = this
      show ?thesis
      proof (cases "if length arg > 2 \<and> arg ! 0 = CHR ''-'' \<and> arg ! 1 \<noteq> CHR ''-''
                   then findOption opts [CHR ''-'', arg ! 1] else None")
        case (Some opt)
        then have decl: "opt \<in> set opts" by (auto dest: findOption_Some split: if_splits)
        show ?thesis
        proof (cases "required opt")
          case True
          from "2.IH"(3) [OF dash known Some True] decl dash known Some True show ?thesis
            unfolding unfold by (auto simp: fst_emit declared_def)
        next
          case False
          from "2.IH"(4) [OF dash known Some False] decl dash known Some False show ?thesis
            unfolding unfold by (auto simp: fst_emit declared_def)
        qed
      next
        case None
        note short = this
        show ?thesis
        proof (cases "longFlagWithValue opts arg")
          case None
          from "2.IH"(1) [OF dash known short None] dash known short None show ?thesis
            unfolding unfold by (simp add: fst_push)
        next
          case (Some ov)
          obtain opt v where ov: "ov = (opt, v)" by (cases ov)
          with Some have decl: "opt \<in> set opts" "required opt"
            by (auto dest: longFlagWithValue_Some)
          from "2.IH"(2) [OF dash known short Some ov [symmetric]] decl dash known short Some ov
          show ?thesis
            unfolding unfold by (auto simp: fst_emit declared_def)
        qed
      qed
    qed
  qed
qed

lemma program_flag_events:
  "(''enableContext7'', v) \<in> set (fst (parseOptions program_options d args)) \<Longrightarrow> v = None"
  using parseOptions_events [of program_options d args]
  by (auto simp: list_all_iff declared_def program_options_def)

lemma program_option_events_enableContext7:
  "program_option_events evs g = Inr g' \<Longrightarrow> opt_enableContext7 g \<Longrightarrow>
   (\<And>v. (''enableContext7'', v) \<in> set evs \<Longrightarrow> v = None) \<Longrightarrow> opt_enableContext7 g'"
proof (induction evs arbitrary: g)
  case Nil
  then show ?case by simp
next
  case (Cons ev evs)
  obtain k v where ev: "ev = (k, v)" by (cases ev)
  show ?case
  proof (cases "k = ''enableContext7''")
    case True
    with Cons.prems(3) [of v] ev have "v = None" by simp
    with Cons.prems(1) True ev have "program_option_events evs (g\<lparr>opt_enableContext7 := True\<rparr>) = Inr g'"
      by simp
    from Cons.IH [OF this] Cons.prems(3) show ?thesis by simp
  next
    case False
    with Cons.prems(1) ev obtain g1 where "program_option_events evs g1 = Inr g'" "opt_enableContext7 g1"
      using Cons.prems(2) by (auto split: if_splits option.splits)
    from Cons.IH [OF this] Cons.prems(3) show ?thesis by simp
  qed
qed

lemma parseSubcommand_globalOptions:
  "parseSubcommand allow c operands unknown g = Inr cmd \<Longrightarrow> inv_globalOptions cmd = g \<and> inv_command cmd = c"
  by (auto simp: parseSubcommand_def split: prod.splits scan_end.splits if_splits)

lemma parse_enableContext7:
  assumes "parse allow argv = Inr cmd"
  shows "opt_enableContext7 (inv_globalOptions cmd)"
proof -
  obtain evs e where scan: "parseOptions program_options False argv = (evs, e)"
    by (cases "parseOptions program_options False argv")
  with assms obtain g where g: "program_option_events evs default_global_options = Inr g"
    by (auto simp: parse_def split: sum.splits)
  have "\<And>v. (''enableContext7'', v) \<in> set evs \<Longrightarrow> v = None"
    using program_flag_events [of _ False argv] scan by simp
  with g have "opt_enableContext7 g"
    using program_option_events_enableContext7 [of evs default_global_options g]
    by (simp add: default_global_options_def)
  moreover from assms scan g have "inv_globalOptions cmd = g"
    by (auto simp: parse_def dest: parseSubcommand_globalOptions
        split: scan_end.splits list.splits option.splits if_splits)
  ultimately show ?thesis by simp
qed

subsection \<open>The program and its actions\<close>

lemma main_parsed:
  "parse allow argv = Inr cmd \<Longrightarrow>
   main allow argv env = run_action cmd env (register_handlers initial_process)"
  by (simp add: main_def Let_def)

lemma initial_trace: "trace (register_handlers initial_process) = []"
  by (simp add: register_handlers_def process_on_def initial_process_def)

lemma initial_status: "status (register_handlers initial_process) = Running"
  by (simp add: register_handlers_def process_on_def initial_process_def)

lemma listeners_run_action: "listeners (run_action cmd env p) = listeners p"
  by (cases "inv_command cmd")
     (simp_all add: run_action_def action_defs effect_defs split: option.splits start_outcome.splits)

lemma listeners_main:
  "listeners (main allow argv env) =
     [(''SIGINT'', OnSIGINT), (''SIGTERM'', OnSIGTERM),
      (''uncaughtException'', OnUncaughtException), (''unhandledRejection'', OnUnhandledRejection)]"
  by (cases "parse allow argv")
     (simp_all add: main_def Let_def listeners_run_action register_handlers_def process_on_def
        initial_process_def)

lemma parse_pm: "parse allow [''pm''] = Inr (default_invocation Pm)"
  by (simp add: scan_defs default_invocation_def)

lemma parse_agents: "parse allow [''agents''] = Inr (default_invocation Agents)"
  by (simp add: scan_defs default_invocation_def)

lemma parse_all: "parse allow [''all''] = Inr (default_invocation All)"
  by (simp add: scan_defs default_invocation_def)

lemma parse_example:
  "parse allow [''pm'', ''--log-level'', ''debug'', ''--port'', ''9090''] =
     Inr \<lparr>inv_command = Pm, inv_options = [(''port'', ''9090'')],
          inv_globalOptions = \<lparr>opt_logLevel = ''debug'', opt_enableContext7 = True\<rparr>\<rparr>"
  by (simp add: scan_defs)

text \<open>
  C1. For every command line that parses to an invocation, the run constructs exactly one
  server: \<open>pm\<close> a \<open>PMServer\<close> named \<^verbatim>\<open>autopm-pm\<close>, \<open>agents\<close> an \<open>AgentsServer\<close> named
  \<^verbatim>\<open>autopm-agents\<close>, and \<open>all\<close> a single \<open>PMServer\<close> named \<^verbatim>\<open>autopm-pm\<close> and no second server.
\<close>

theorem one_server_per_invocation:
  assumes "parse allow argv = Inr cmd"
  shows "(inv_command cmd = Pm \<longrightarrow>
           constructed (main allow argv env) =
             [NewServer PMServer \<lparr>name = ''autopm-pm'', version = ''1.0.0'',
                logLevel = parseLogLevel (opt_logLevel (inv_globalOptions cmd)),
                enableContext7 = opt_enableContext7 (inv_globalOptions cmd)\<rparr>]) \<and>
         (inv_command cmd = Agents \<longrightarrow>
           constructed (main allow argv env) =
             [NewServer AgentsServer \<lparr>name = ''autopm-agents'', version = ''1.0.0'',
                logLevel = parseLogLevel (opt_logLevel (inv_globalOptions cmd)),
                enableContext7 = opt_enableContext7 (inv_globalOptions cmd)\<rparr>]) \<and>
         (inv_command cmd = All \<longrightarrow>
           constructed (main allow argv env) =
             [NewServer PMServer \<lparr>name = ''autopm-pm'', version = ''1.0.0'',
                logLevel = parseLogLevel (opt_logLevel (inv_globalOptions cmd)),
                enableContext7 = opt_enableContext7 (inv_globalOptions cmd)\<rparr>])"
  using initial_trace
  by (cases "inv_command cmd")
     (simp_all add: main_parsed [OF assms] run_action_def action_defs effect_defs observation_defs
        split: option.splits start_outcome.splits)

theorem one_server_per_invocation_witness:
  "parse True [''pm''] = Inr (default_invocation Pm) \<and>
   constructed (main True [''pm''] reliable_servers) =
     [NewServer PMServer
        \<lparr>name = ''autopm-pm'', version = ''1.0.0'', logLevel = INFO, enableContext7 = True\<rparr>] \<and>
   parse True [''agents''] = Inr (default_invocation Agents) \<and>
   constructed (main True [''agents''] failing_start) =
     [NewServer AgentsServer
        \<lparr>name = ''autopm-agents'', version = ''1.0.0'', logLevel = INFO, enableContext7 = True\<rparr>] \<and>
   parse True [''all''] = Inr (default_invocation All) \<and>
   constructed (main True [''all''] reliable_servers) =
     [NewServer PMServer
        \<lparr>name = ''autopm-pm'', version = ''1.0.0'', logLevel = INFO, enableContext7 = True\<rparr>]"
  using one_server_per_invocation [OF parse_pm, of True reliable_servers]
    one_server_per_invocation [OF parse_agents, of True failing_start]
    one_server_per_invocation [OF parse_all, of True reliable_servers]
  by (simp add: parse_pm parse_agents parse_all default_invocation_def default_global_options_def
      parseLogLevel_info)

text \<open>
  C2. Every command action constructs one server; when its constructor throws, or its
  \<^verbatim>\<open>start()\<close> rejects, with some error, the action's last act is an ERROR entry of its
  logger carrying that error, the process exits with code 1, and nothing is tried again:
  no second construction and at most one start.
\<close>

theorem startup_failure_exits_1:
  "\<exists>cls cfg.
     constructed (run_action cmd env p) = constructed p @ [NewServer cls cfg] \<and>
     (\<forall>error.
        construct env cls cfg = Some error \<or>
        (construct env cls cfg = None \<and> start env cls cfg = Rejects error) \<longrightarrow>
        status (run_action cmd env p) = Exited 1 \<and>
        (\<exists>lg msg.
           last (trace (run_action cmd env p)) = LoggerError lg msg error \<and>
           error_entries (run_action cmd env p) = error_entries p @ [LoggerError lg msg error]) \<and>
        length (started (run_action cmd env p)) \<le> length (started p) + 1)"
  by (cases "inv_command cmd")
     (auto simp add: run_action_def action_defs effect_defs observation_defs
        split: option.splits start_outcome.splits)

theorem startup_failure_exits_1_witness:
  "status (run_action (default_invocation Pm) failing_constructor initial_process) = Exited 1 \<and>
   last (trace (run_action (default_invocation Pm) failing_constructor initial_process)) =
     LoggerError (Logger ''AutoPM-PM'' INFO) ''Failed to start PM server:'' (Thrown ''invalid configuration'') \<and>
   started (run_action (default_invocation Pm) failing_constructor initial_process) = [] \<and>
   status (run_action (default_invocation All) failing_start initial_process) = Exited 1 \<and>
   error_entries (run_action (default_invocation All) failing_start initial_process) =
     [LoggerError (Logger ''AutoPM-All'' INFO) ''Failed to start servers:'' (Thrown ''port in use'')] \<and>
   length (started (run_action (default_invocation All) failing_start initial_process)) = 1"
  using startup_failure_exits_1 [of "default_invocation Pm" failing_constructor initial_process]
    startup_failure_exits_1 [of "default_invocation All" failing_start initial_process]
  by (simp add: run_action_def action_defs effect_defs observation_defs environment_defs
      parseLogLevel_info)

text \<open>
  C5. Every command action constructs one server; when its constructor returns and its
  \<^verbatim>\<open>start()\<close> resolves, the action's last act is an INFO entry whose message contains
  \<^verbatim>\<open>started successfully\<close>, the exit status of the process is left as it was (no call of
  \<^verbatim>\<open>process.exit\<close>), and no ERROR entry is logged.
\<close>

theorem started_successfully_no_exit:
  "\<exists>cls cfg.
     constructed (run_action cmd env p) = constructed p @ [NewServer cls cfg] \<and>
     (construct env cls cfg = None \<and> start env cls cfg = Resolves \<longrightarrow>
        status (run_action cmd env p) = status p \<and>
        (\<exists>lg msg.
           last (trace (run_action cmd env p)) = LoggerInfo lg msg \<and>
           sublist ''started successfully'' msg) \<and>
        error_entries (run_action cmd env p) = error_entries p)"
  by (cases "inv_command cmd")
     (auto simp add: run_action_def action_defs effect_defs observation_defs sublist_Cons_right
        split: option.splits start_outcome.splits)

theorem started_successfully_no_exit_witness:
  "status (run_action (default_invocation Agents) reliable_servers initial_process) = Running \<and>
   last (trace (run_action (default_invocation Agents) reliable_servers initial_process)) =
     LoggerInfo (Logger ''AutoPM-Agents'' INFO) ''Agents server started successfully'' \<and>
   sublist ''started successfully'' ''Agents server started successfully'' \<and>
   error_entries (run_action (default_invocation Agents) reliable_servers initial_process) = []"
  using started_successfully_no_exit [of "default_invocation Agents" reliable_servers initial_process]
  by (simp add: run_action_def action_defs effect_defs observation_defs environment_defs
      parseLogLevel_info sublist_Cons_right)

text \<open>
  C4. The command line \<^verbatim>\<open>pm --log-level debug --port 9090\<close> parses to the \<open>pm\<close> invocation
  with log level \<^verbatim>\<open>debug\<close>, which resolves to \<open>DEBUG\<close>; the one server constructed is a
  \<open>PMServer\<close> with the configuration \<^verbatim>\<open>{name: "autopm-pm", version: "1.0.0", logLevel: DEBUG,
  enableContext7: true}\<close>; and when the constructor returns and \<^verbatim>\<open>start()\<close> resolves, the
  process is still running and the INFO entries of the logger are exactly two, the
  \<^verbatim>\<open>Starting...\<close> line and the \<^verbatim>\<open>started successfully\<close> line. The trace of the run is given in
  full: beside the two entries it holds the four diagnostic lines that the \<open>pm\<close> action
  writes with \<^verbatim>\<open>console.error\<close>, which go past the logger and carry no level.
\<close>

theorem example_scenario:
  "parse allow [''pm'', ''--log-level'', ''debug'', ''--port'', ''9090''] =
     Inr \<lparr>inv_command = Pm, inv_options = [(''port'', ''9090'')],
          inv_globalOptions = \<lparr>opt_logLevel = ''debug'', opt_enableContext7 = True\<rparr>\<rparr> \<and>
   parseLogLevel ''debug'' = DEBUG \<and>
   constructed (main allow [''pm'', ''--log-level'', ''debug'', ''--port'', ''9090''] env) =
     [NewServer PMServer
        \<lparr>name = ''autopm-pm'', version = ''1.0.0'', logLevel = DEBUG, enableContext7 = True\<rparr>] \<and>
   (construct env PMServer
        \<lparr>name = ''autopm-pm'', version = ''1.0.0'', logLevel = DEBUG, enableContext7 = True\<rparr> = None \<and>
    start env PMServer
        \<lparr>name = ''autopm-pm'', version = ''1.0.0'', logLevel = DEBUG, enableContext7 = True\<rparr> = Resolves \<longrightarrow>
    status (main allow [''pm'', ''--log-level'', ''debug'', ''--port'', ''9090''] env) = Running \<and>
    info_entries (main allow [''pm'', ''--log-level'', ''debug'', ''--port'', ''9090''] env) =
      [LoggerInfo (Logger ''AutoPM-PM'' DEBUG) ''Starting Project Management MCP Server...'',
       LoggerInfo (Logger ''AutoPM-PM'' DEBUG) ''Project Management server started successfully''] \<and>
    trace (main allow [''pm'', ''--log-level'', ''debug'', ''--port'', ''9090''] env) =
      [ConsoleError [Str ''CLI: Starting PM server command...''],
       NewLogger (Logger ''AutoPM-PM'' DEBUG),
       ConsoleError [Str ''CLI: Created logger''],
       LoggerInfo (Logger ''AutoPM-PM'' DEBUG) ''Starting Project Management MCP Server...'',
       ConsoleError [Str ''CLI: Creating PMServer...''],
       NewServer PMServer
         \<lparr>name = ''autopm-pm'', version = ''1.0.0'', logLevel = DEBUG, enableContext7 = True\<rparr>,
       ConsoleError [Str ''CLI: PMServer created successfully''],
       ServerStart PMServer
         \<lparr>name = ''autopm-pm'', version = ''1.0.0'', logLevel = DEBUG, enableContext7 = True\<rparr>,
       LoggerInfo (Logger ''AutoPM-PM'' DEBUG) ''Project Management server started successfully''])"
  by (simp add: main_parsed [OF parse_example] parse_example parseLogLevel_debug run_action_def
      action_defs effect_defs observation_defs register_handlers_def process_on_def initial_process_def
      split: option.splits start_outcome.splits)

theorem example_scenario_witness:
  "status (main True [''pm'', ''--log-level'', ''debug'', ''--port'', ''9090''] reliable_servers) = Running \<and>
   info_entries (main True [''pm'', ''--log-level'', ''debug'', ''--port'', ''9090''] reliable_servers) =
      [LoggerInfo (Logger ''AutoPM-PM'' DEBUG) ''Starting Project Management MCP Server...'',
       LoggerInfo (Logger ''AutoPM-PM'' DEBUG) ''Project Management server started successfully'']"
  using example_scenario [of True reliable_servers]
  by (simp add: reliable_servers_def)

lemma running_pm: "status (main True [''pm''] reliable_servers) = Running"
  by (simp add: main_parsed [OF parse_pm] run_action_def action_defs effect_defs environment_defs
      register_handlers_def process_on_def)

text \<open>
  C6. Whatever the command line and the servers, when the process is running and receives
  SIGINT or SIGTERM, the handler writes one line and the process exits with code 0: the
  line is the only event added to the trace, so no server is constructed or started again
  and nothing of a server is called or awaited.
\<close>

theorem signal_exits_0:
  assumes "p = main allow argv env" and "status p = Running"
  shows "deliver SIGINT p =
           p\<lparr>trace := trace p @
                  [ConsoleError [Str (CHR 0x0A # ''Received SIGINT, shutting down gracefully...'')]],
             status := Exited 0\<rparr> \<and>
         deliver SIGTERM p =
           p\<lparr>trace := trace p @
                  [ConsoleError [Str (CHR 0x0A # ''Received SIGTERM, shutting down gracefully...'')]],
             status := Exited 0\<rparr> \<and>
         constructed (deliver SIGINT p) = constructed p \<and>
         started (deliver SIGINT p) = started p \<and>
         constructed (deliver SIGTERM p) = constructed p \<and>
         started (deliver SIGTERM p) = started p"
  using assms(2) listeners_main [of allow argv env]
  by (simp add: deliver_def assms(1) [symmetric] effect_defs observation_defs)

theorem signal_exits_0_witness:
  "status (main True [''pm''] reliable_servers) = Running \<and>
   status (deliver SIGINT (main True [''pm''] reliable_servers)) = Exited 0 \<and>
   status (deliver SIGTERM (main True [''pm''] reliable_servers)) = Exited 0 \<and>
   constructed (deliver SIGINT (main True [''pm''] reliable_servers)) =
     constructed (main True [''pm''] reliable_servers)"
  using signal_exits_0 [OF refl running_pm] running_pm
  by (simp add: observation_defs)

text \<open>
  C7. Whatever the command line and the servers, when the process is running and an
  uncaught exception or an unhandled rejection is reported, with whatever error and
  promise, the handler writes the error with \<^verbatim>\<open>console.error\<close> and the process exits with
  code 1.
\<close>

theorem fatal_error_exits_1:
  assumes "p = main allow argv env" and "status p = Running"
  shows "deliver (UncaughtException error) p =
           p\<lparr>trace := trace p @ [ConsoleError [Str ''Uncaught Exception:'', Err error]],
             status := Exited 1\<rparr> \<and>
         deliver (UnhandledRejection reason pr) p =
           p\<lparr>trace := trace p @
                  [ConsoleError [Str ''Unhandled Rejection at:'', Prom pr, Str ''reason:'', Err reason]],
             status := Exited 1\<rparr>"
  using assms(2) listeners_main [of allow argv env]
  by (simp add: deliver_def assms(1) [symmetric] effect_defs)

theorem fatal_error_exits_1_witness:
  "status (main True [''pm''] reliable_servers) = Running \<and>
   status (deliver (UncaughtException (Thrown ''boom'')) (main True [''pm''] reliable_servers)) = Exited 1 \<and>
   status (deliver (UnhandledRejection (Thrown ''late'') (Promise 7)) (main True [''pm''] reliable_servers)) =
     Exited 1"
  using fatal_error_exits_1 [OF refl running_pm, of "Thrown ''boom''" "Thrown ''late''" "Promise 7"]
    running_pm
  by simp

text \<open>
  C8. For every command line that parses to an invocation of \<open>pm\<close>, \<open>agents\<close> or \<open>all\<close>, the
  program's \<open>enableContext7\<close> option is \<open>true\<close>, and so is the \<open>enableContext7\<close> field of the
  configuration of the one server constructed: the option starts as \<open>true\<close>, its flag
  stores \<open>true\<close>, and no other argument of the command line reaches it.
\<close>

theorem enableContext7_always_true:
  assumes "parse allow argv = Inr cmd"
  shows "opt_enableContext7 (inv_globalOptions cmd) = True \<and>
         (\<exists>cls cfg. constructed (main allow argv env) = [NewServer cls cfg] \<and>
                    enableContext7 cfg = True)"
  using parse_enableContext7 [OF assms] initial_trace
  by (cases "inv_command cmd")
     (simp_all add: main_parsed [OF assms] run_action_def action_defs effect_defs observation_defs
        split: option.splits start_outcome.splits)

lemma parse_with_flag:
  "parse allow [''agents'', ''--enable-context7'', ''--log-level=warn''] =
     Inr \<lparr>inv_command = Agents, inv_options = [(''port'', ''8081'')],
          inv_globalOptions = \<lparr>opt_logLevel = ''warn'', opt_enableContext7 = True\<rparr>\<rparr>"
  by (simp add: scan_defs)

theorem enableContext7_always_true_witness:
  "parse True [''agents'', ''--enable-context7'', ''--log-level=warn''] =
     Inr \<lparr>inv_command = Agents, inv_options = [(''port'', ''8081'')],
          inv_globalOptions = \<lparr>opt_logLevel = ''warn'', opt_enableContext7 = True\<rparr>\<rparr> \<and>
   (\<exists>cls cfg.
      constructed (main True [''agents'', ''--enable-context7'', ''--log-level=warn''] reliable_servers) =
        [NewServer cls cfg] \<and> enableContext7 cfg = True) \<and>
   parse True [''agents'', ''--no-enable-context7''] = Inl (UnknownOptionError ''--no-enable-context7'') \<and>
   parse True [''agents'', ''--enable-context7=false''] =
     Inl (UnknownOptionError ''--enable-context7=false'')"
  using enableContext7_always_true [OF parse_with_flag, of True reliable_servers]
  by (simp add: scan_defs)

text \<open>
  C9. Two command lines that parse to the same subcommand with the same values of the
  program's options, and so differ at most in the options of the subcommand (the port),
  run identically: the same servers are constructed with the same configuration, the
  same lines are written and logged, and the process ends in the same state. The actions
  never read their own options.
\<close>

theorem port_has_no_effect:
  assumes "parse allow argv1 = Inr c1" and "parse allow argv2 = Inr c2"
    and "inv_command c1 = inv_command c2"
    and "inv_globalOptions c1 = inv_globalOptions c2"
  shows "main allow argv1 env = main allow argv2 env \<and>
         run_action (c1\<lparr>inv_options := opts\<rparr>) env p = run_action c1 env p"
  using assms(3,4)
  by (cases "inv_command c1")
     (simp_all add: main_parsed [OF assms(1)] main_parsed [OF assms(2)] run_action_def action_defs)

lemma parse_port_9090:
  "parse allow [''pm'', ''--port'', ''9090''] =
     Inr \<lparr>inv_command = Pm, inv_options = [(''port'', ''9090'')],
          inv_globalOptions = default_global_options\<rparr>"
  by (simp add: scan_defs)

lemma parse_port_3000:
  "parse allow [''pm'', ''--port=3000''] =
     Inr \<lparr>inv_command = Pm, inv_options = [(''port'', ''3000'')],
          inv_globalOptions = default_global_options\<rparr>"
  by (simp add: scan_defs)

theorem port_has_no_effect_witness:
  "parse True [''pm'', ''--port'', ''9090''] =
     Inr \<lparr>inv_command = Pm, inv_options = [(''port'', ''9090'')],
          inv_globalOptions = default_global_options\<rparr> \<and>
   parse True [''pm'', ''--port=3000''] =
     Inr \<lparr>inv_command = Pm, inv_options = [(''port'', ''3000'')],
          inv_globalOptions = default_global_options\<rparr> \<and>
   main True [''pm'', ''--port'', ''9090''] failing_start = main True [''pm'', ''--port=3000''] failing_start"
  using port_has_no_effect [OF parse_port_9090 parse_port_3000, of True failing_start]
  by (simp add: parse_port_9090 parse_port_3000)

subsection \<open>The traces of \<open>pm\<close> and \<open>all\<close>\<close>

lemma pm_action_trace:
  "trace (pm_action opts2 g env p) =
     trace p @
     [ConsoleError [Str ''CLI: Starting PM server command...''],
      NewLogger (Logger ''AutoPM-PM'' (parseLogLevel (opt_logLevel g))),
      ConsoleError [Str ''CLI: Created logger''],
      LoggerInfo (Logger ''AutoPM-PM'' (parseLogLevel (opt_logLevel g)))
        ''Starting Project Management MCP Server...'',
      ConsoleError [Str ''CLI: Creating PMServer...''],
      NewServer PMServer
        \<lparr>name = ''autopm-pm'', version = ''1.0.0'',
         logLevel = parseLogLevel (opt_logLevel g), enableContext7 = opt_enableContext7 g\<rparr>] @
     (case construct env PMServer
             \<lparr>name = ''autopm-pm'', version = ''1.0.0'',
              logLevel = parseLogLevel (opt_logLevel g), enableContext7 = opt_enableContext7 g\<rparr> of
        Some error \<Rightarrow>
          [LoggerError (Logger ''AutoPM-PM'' (parseLogLevel (opt_logLevel g)))
             ''Failed to start PM server:'' error]
      | None \<Rightarrow>
          [ConsoleError [Str ''CLI: PMServer created successfully''],
           ServerStart PMServer
             \<lparr>name = ''autopm-pm'', version = ''1.0.0'',
              logLevel = parseLogLevel (opt_logLevel g), enableContext7 = opt_enableContext7 g\<rparr>] @
          (case start env PMServer
                  \<lparr>name = ''autopm-pm'', version = ''1.0.0'',
                   logLevel = parseLogLevel (opt_logLevel g), enableContext7 = opt_enableContext7 g\<rparr> of
             Resolves \<Rightarrow>
               [LoggerInfo (Logger ''AutoPM-PM'' (parseLogLevel (opt_logLevel g)))
                  ''Project Management server started successfully'']
           | Rejects error \<Rightarrow>
               [LoggerError (Logger ''AutoPM-PM'' (parseLogLevel (opt_logLevel g)))
                  ''Failed to start PM server:'' error]
           | Pending \<Rightarrow> []))"
  by (simp add: action_defs effect_defs split: option.splits start_outcome.splits)

lemma all_action_trace:
  "trace (all_action opts1 g env p) =
     trace p @
     [NewLogger (Logger ''AutoPM-All'' (parseLogLevel (opt_logLevel g))),
      LoggerInfo (Logger ''AutoPM-All'' (parseLogLevel (opt_logLevel g)))
        ''Starting both PM and Agents MCP servers...'',
      NewServer PMServer
        \<lparr>name = ''autopm-pm'', version = ''1.0.0'',
         logLevel = parseLogLevel (opt_logLevel g), enableContext7 = opt_enableContext7 g\<rparr>] @
     (case construct env PMServer
             \<lparr>name = ''autopm-pm'', version = ''1.0.0'',
              logLevel = parseLogLevel (opt_logLevel g), enableContext7 = opt_enableContext7 g\<rparr> of
        Some error \<Rightarrow>
          [LoggerError (Logger ''AutoPM-All'' (parseLogLevel (opt_logLevel g)))
             ''Failed to start servers:'' error]
      | None \<Rightarrow>
          [ServerStart PMServer
             \<lparr>name = ''autopm-pm'', version = ''1.0.0'',
              logLevel = parseLogLevel (opt_logLevel g), enableContext7 = opt_enableContext7 g\<rparr>] @
          (case start env PMServer
                  \<lparr>name = ''autopm-pm'', version = ''1.0.0'',
                   logLevel = parseLogLevel (opt_logLevel g), enableContext7 = opt_enableContext7 g\<rparr> of
             Resolves \<Rightarrow>
               [LoggerInfo (Logger ''AutoPM-All'' (parseLogLevel (opt_logLevel g)))
                  ''PM server started successfully (Agents tools available within PM server)'']
           | Rejects error \<Rightarrow>
               [LoggerError (Logger ''AutoPM-All'' (parseLogLevel (opt_logLevel g)))
                  ''Failed to start servers:'' error]
           | Pending \<Rightarrow> []))"
  by (simp add: action_defs effect_defs split: option.splits start_outcome.splits)

lemma pm_action_status:
  "status (pm_action opts2 g env p) =
     (case construct env PMServer
             \<lparr>name = ''autopm-pm'', version = ''1.0.0'',
              logLevel = parseLogLevel (opt_logLevel g), enableContext7 = opt_enableContext7 g\<rparr> of
        Some error \<Rightarrow> Exited 1
      | None \<Rightarrow>
          (case start env PMServer
                  \<lparr>name = ''autopm-pm'', version = ''1.0.0'',
                   logLevel = parseLogLevel (opt_logLevel g), enableContext7 = opt_enableContext7 g\<rparr> of
             Resolves \<Rightarrow> status p
           | Rejects error \<Rightarrow> Exited 1
           | Pending \<Rightarrow> status p))"
  by (simp add: action_defs effect_defs split: option.splits start_outcome.splits)

lemma all_action_status:
  "status (all_action opts1 g env p) =
     (case construct env PMServer
             \<lparr>name = ''autopm-pm'', version = ''1.0.0'',
              logLevel = parseLogLevel (opt_logLevel g), enableContext7 = opt_enableContext7 g\<rparr> of
        Some error \<Rightarrow> Exited 1
      | None \<Rightarrow>
          (case start env PMServer
                  \<lparr>name = ''autopm-pm'', version = ''1.0.0'',
                   logLevel = parseLogLevel (opt_logLevel g), enableContext7 = opt_enableContext7 g\<rparr> of
             Resolves \<Rightarrow> status p
           | Rejects error \<Rightarrow> Exited 1
           | Pending \<Rightarrow> status p))"
  by (simp add: action_defs effect_defs split: option.splits start_outcome.splits)

text \<open>
  C10, in the form that holds. For every setting of the program's options and whatever the
  servers do, the \<open>all\<close> action constructs a \<open>PMServer\<close> with exactly the configuration
  that the \<open>pm\<close> action constructs it with, and the two runs end with the same exit
  status. Apart from the lines written with \<^verbatim>\<open>console.error\<close>, their traces agree event by
  event once the name of the logger and the text of the messages are forgotten. The \<open>all\<close>
  action writes no line with \<^verbatim>\<open>console.error\<close>. The \<open>pm\<close> action writes
  \<^verbatim>\<open>CLI: Starting PM server command...\<close>, \<^verbatim>\<open>CLI: Created logger\<close> and
  \<^verbatim>\<open>CLI: Creating PMServer...\<close> before it calls the constructor, and
  \<^verbatim>\<open>CLI: PMServer created successfully\<close> right after the constructor has returned, before
  \<^verbatim>\<open>start()\<close>, and only then. Both traces are given in full.
\<close>

theorem all_pm_same_configuration:
  "constructed (all_action opts1 g env p) = constructed (pm_action opts2 g env p) \<and>
   status (all_action opts1 g env p) = status (pm_action opts2 g env p) \<and>
   map shape_of (filter (\<lambda>e. \<not> is_ConsoleError e) (trace (all_action opts1 g env p))) =
   map shape_of (filter (\<lambda>e. \<not> is_ConsoleError e) (trace (pm_action opts2 g env p))) \<and>
   length (filter is_ConsoleError (trace (all_action opts1 g env p))) =
     length (filter is_ConsoleError (trace p)) \<and>
   (length (filter is_ConsoleError (trace (pm_action opts2 g env p))) =
      length (filter is_ConsoleError (trace p)) + 3 \<or>
    length (filter is_ConsoleError (trace (pm_action opts2 g env p))) =
      length (filter is_ConsoleError (trace p)) + 4) \<and>
   filter is_ConsoleError (trace (all_action opts1 g env p)) = filter is_ConsoleError (trace p) \<and>
   filter is_ConsoleError (trace (pm_action opts2 g env p)) =
     filter is_ConsoleError (trace p) @
     [ConsoleError [Str ''CLI: Starting PM server command...''],
      ConsoleError [Str ''CLI: Created logger''],
      ConsoleError [Str ''CLI: Creating PMServer...'']] @
     (if construct env PMServer
           \<lparr>name = ''autopm-pm'', version = ''1.0.0'',
            logLevel = parseLogLevel (opt_logLevel g), enableContext7 = opt_enableContext7 g\<rparr> = None
      then [ConsoleError [Str ''CLI: PMServer created successfully'']] else []) \<and>
   trace (pm_action opts2 g env p) =
     trace p @
     [ConsoleError [Str ''CLI: Starting PM server command...''],
      NewLogger (Logger ''AutoPM-PM'' (parseLogLevel (opt_logLevel g))),
      ConsoleError [Str ''CLI: Created logger''],
      LoggerInfo (Logger ''AutoPM-PM'' (parseLogLevel (opt_logLevel g)))
        ''Starting Project Management MCP Server...'',
      ConsoleError [Str ''CLI: Creating PMServer...''],
      NewServer PMServer
        \<lparr>name = ''autopm-pm'', version = ''1.0.0'',
         logLevel = parseLogLevel (opt_logLevel g), enableContext7 = opt_enableContext7 g\<rparr>] @
     (case construct env PMServer
             \<lparr>name = ''autopm-pm'', version = ''1.0.0'',
              logLevel = parseLogLevel (opt_logLevel g), enableContext7 = opt_enableContext7 g\<rparr> of
        Some error \<Rightarrow>
          [LoggerError (Logger ''AutoPM-PM'' (parseLogLevel (opt_logLevel g)))
             ''Failed to start PM server:'' error]
      | None \<Rightarrow>
          [ConsoleError [Str ''CLI: PMServer created successfully''],
           ServerStart PMServer
             \<lparr>name = ''autopm-pm'', version = ''1.0.0'',
              logLevel = parseLogLevel (opt_logLevel g), enableContext7 = opt_enableContext7 g\<rparr>] @
          (case start env PMServer
                  \<lparr>name = ''autopm-pm'', version = ''1.0.0'',
                   logLevel = parseLogLevel (opt_logLevel g), enableContext7 = opt_enableContext7 g\<rparr> of
             Resolves \<Rightarrow>
               [LoggerInfo (Logger ''AutoPM-PM'' (parseLogLevel (opt_logLevel g)))
                  ''Project Management server started successfully'']
           | Rejects error \<Rightarrow>
               [LoggerError (Logger ''AutoPM-PM'' (parseLogLevel (opt_logLevel g)))
                  ''Failed to start PM server:'' error]
           | Pending \<Rightarrow> [])) \<and>
   trace (all_action opts1 g env p) =
     trace p @
     [NewLogger (Logger ''AutoPM-All'' (parseLogLevel (opt_logLevel g))),
      LoggerInfo (Logger ''AutoPM-All'' (parseLogLevel (opt_logLevel g)))
        ''Starting both PM and Agents MCP servers...'',
      NewServer PMServer
        \<lparr>name = ''autopm-pm'', version = ''1.0.0'',
         logLevel = parseLogLevel (opt_logLevel g), enableContext7 = opt_enableContext7 g\<rparr>] @
     (case construct env PMServer
             \<lparr>name = ''autopm-pm'', version = ''1.0.0'',
              logLevel = parseLogLevel (opt_logLevel g), enableContext7 = opt_enableContext7 g\<rparr> of
        Some error \<Rightarrow>
          [LoggerError (Logger ''AutoPM-All'' (parseLogLevel (opt_logLevel g)))
             ''Failed to start servers:'' error]
      | None \<Rightarrow>
          [ServerStart PMServer
             \<lparr>name = ''autopm-pm'', version = ''1.0.0'',
              logLevel = parseLogLevel (opt_logLevel g), enableContext7 = opt_enableContext7 g\<rparr>] @
          (case start env PMServer
                  \<lparr>name = ''autopm-pm'', version = ''1.0.0'',
                   logLevel = parseLogLevel (opt_logLevel g), enableContext7 = opt_enableContext7 g\<rparr> of
             Resolves \<Rightarrow>
               [LoggerInfo (Logger ''AutoPM-All'' (parseLogLevel (opt_logLevel g)))
                  ''PM server started successfully (Agents tools available within PM server)'']
           | Rejects error \<Rightarrow>
               [LoggerError (Logger ''AutoPM-All'' (parseLogLevel (opt_logLevel g)))
                  ''Failed to start servers:'' error]
           | Pending \<Rightarrow> []))"
  unfolding observation_defs pm_action_trace all_action_trace pm_action_status all_action_status
  by (simp split: option.splits start_outcome.splits)

theorem all_pm_same_configuration_witness:
  "constructed (all_action [] default_global_options reliable_servers initial_process) =
     [NewServer PMServer
        \<lparr>name = ''autopm-pm'', version = ''1.0.0'', logLevel = INFO, enableContext7 = True\<rparr>] \<and>
   constructed (pm_action [] default_global_options reliable_servers initial_process) =
     [NewServer PMServer
        \<lparr>name = ''autopm-pm'', version = ''1.0.0'', logLevel = INFO, enableContext7 = True\<rparr>] \<and>
   filter is_ConsoleError (trace (all_action [] default_global_options reliable_servers initial_process)) = [] \<and>
   filter is_ConsoleError (trace (pm_action [] default_global_options reliable_servers initial_process)) =
     [ConsoleError [Str ''CLI: Starting PM server command...''],
      ConsoleError [Str ''CLI: Created logger''],
      ConsoleError [Str ''CLI: Creating PMServer...''],
      ConsoleError [Str ''CLI: PMServer created successfully'']] \<and>
   filter is_ConsoleError (trace (pm_action [] default_global_options failing_constructor initial_process)) =
     [ConsoleError [Str ''CLI: Starting PM server command...''],
      ConsoleError [Str ''CLI: Created logger''],
      ConsoleError [Str ''CLI: Creating PMServer...'']]"
  using all_pm_same_configuration [of "[]" default_global_options reliable_servers initial_process "[]"]
    all_pm_same_configuration [of "[]" default_global_options failing_constructor initial_process "[]"]
  by (simp add: observation_defs environment_defs parseLogLevel_info pm_action_trace all_action_trace)

text \<open>
  C10 as the specification states it, that the two commands differ only in the name of
  the logger and the text of the messages, fails: with the default options and servers
  that start, the trace of \<open>pm\<close> and the trace of \<open>all\<close> differ even when logger names
  and message texts are forgotten, because \<open>pm\<close> writes lines with \<^verbatim>\<open>console.error\<close> that
  \<open>all\<close> does not.
\<close>

theorem all_pm_traces_differ:
  "map shape_of (trace (all_action [] default_global_options reliable_servers initial_process)) \<noteq>
   map shape_of (trace (pm_action [] default_global_options reliable_servers initial_process))"
  by (simp add: action_defs effect_defs environment_defs)

end
